theory Spec2Isabelle
  imports Main
begin

section \<open>JavaScript values\<close>

text \<open>
  Optional and untyped fields of the objects the client handles (\<open>departmentId?: string\<close>,
  \<open>product: any\<close>, \<open>state.user as any\<close>) hold a string, \<open>null\<close> or nothing at all.
  \<open>Undefined\<close> stands for an absent key. The conditions of the source test such fields by
  JavaScript truthiness: \<open>undefined\<close>, \<open>null\<close> and the empty string are falsy.
\<close>

datatype jsval = Undefined | Null | Str string

fun truthy :: "jsval \<Rightarrow> bool" where
  "truthy Undefined = False"
| "truthy Null = False"
| "truthy (Str s) = (s \<noteq> [])"

text \<open>Truthiness of a value of type \<open>string | null\<close> (or of an omitted string argument).\<close>

fun truthy_string :: "string option \<Rightarrow> bool" where
  "truthy_string None = False"
| "truthy_string (Some s) = (s \<noteq> [])"

text \<open>An object of type \<open>any\<close>, read by key.\<close>

type_synonym jsobj = "string \<Rightarrow> jsval"


section \<open>Session Store (src/stores/authStore.ts)\<close>

text \<open>
  The \<open>User\<close> interface. \<open>role\<close> is a string at run time (the interface narrows it to
  \<open>'manager' | 'staff'\<close>, the permission checks still have a branch for anything else).
  \<open>department_id\<close> and \<open>department_name\<close> are not part of the interface: they are the
  snake-case keys a persisted user may carry, which \<open>onRehydrateStorage\<close> reads through
  \<open>state.user as any\<close>.
\<close>

record User =
  id' :: string
  name :: string
  email :: string
  role :: string
  departmentId :: jsval
  departmentName :: jsval
  phone :: jsval
  lastLogin :: jsval
  createdAt :: string
  department_id :: jsval
  department_name :: jsval

record AuthState =
  user :: "User option"
  accessToken :: "string option"
  refreshToken :: "string option"
  isAuthenticated :: bool
  isLoading :: bool

definition initialState :: AuthState where
  "initialState =
     \<lparr>user = None, accessToken = None, refreshToken = None,
      isAuthenticated = False, isLoading = False\<rparr>"

definition login :: "User \<Rightarrow> string \<Rightarrow> string \<Rightarrow> AuthState \<Rightarrow> AuthState" where
  "login u at rt st =
     st\<lparr>user := Some u, accessToken := Some at, refreshToken := Some rt,
        isAuthenticated := True, isLoading := False\<rparr>"

definition logout :: "AuthState \<Rightarrow> AuthState" where
  "logout st =
     st\<lparr>user := None, accessToken := None, refreshToken := None,
        isAuthenticated := False, isLoading := False\<rparr>"

text \<open>
  \<open>Partial<User>\<close>: the keys an update object carries, each with its new value. The spread
  \<open>{ ...currentUser, ...userUpdate }\<close> overwrites exactly those keys.
\<close>

datatype user_key =
    Set_id string
  | Set_name string
  | Set_email string
  | Set_role string
  | Set_departmentId jsval
  | Set_departmentName jsval
  | Set_phone jsval
  | Set_lastLogin jsval
  | Set_createdAt string

fun assign :: "user_key \<Rightarrow> User \<Rightarrow> User" where
  "assign (Set_id v) u = u\<lparr>id' := v\<rparr>"
| "assign (Set_name v) u = u\<lparr>name := v\<rparr>"
| "assign (Set_email v) u = u\<lparr>email := v\<rparr>"
| "assign (Set_role v) u = u\<lparr>role := v\<rparr>"
| "assign (Set_departmentId v) u = u\<lparr>departmentId := v\<rparr>"
| "assign (Set_departmentName v) u = u\<lparr>departmentName := v\<rparr>"
| "assign (Set_phone v) u = u\<lparr>phone := v\<rparr>"
| "assign (Set_lastLogin v) u = u\<lparr>lastLogin := v\<rparr>"
| "assign (Set_createdAt v) u = u\<lparr>createdAt := v\<rparr>"

definition spread :: "User \<Rightarrow> user_key list \<Rightarrow> User" where
  "spread currentUser userUpdate = fold assign userUpdate currentUser"

definition updateUser :: "user_key list \<Rightarrow> AuthState \<Rightarrow> AuthState" where
  "updateUser userUpdate st =
     (case user st of
        None \<Rightarrow> st
      | Some currentUser \<Rightarrow> st\<lparr>user := Some (spread currentUser userUpdate)\<rparr>)"

definition setLoading :: "bool \<Rightarrow> AuthState \<Rightarrow> AuthState" where
  "setLoading loading st = st\<lparr>isLoading := loading\<rparr>"

text \<open>
  \<open>set({ accessToken, ...(refreshToken && { refreshToken }) })\<close>: the access token is always
  written; the refresh token only when the second argument is given and not empty.
\<close>

definition updateTokens :: "string \<Rightarrow> string option \<Rightarrow> AuthState \<Rightarrow> AuthState" where
  "updateTokens at rt st =
     (if truthy_string rt
      then st\<lparr>accessToken := Some at, refreshToken := rt\<rparr>
      else st\<lparr>accessToken := Some at\<rparr>)"

subsection \<open>Migration on rehydration\<close>

text \<open>
  The body of the \<open>if (state?.user)\<close> block: \<open>fixedUser\<close> starts as a copy of the stored
  user, every condition reads the stored user, and the result is the pair of \<open>fixedUser\<close> and
  \<open>needsMigration\<close>. \<open>delete\<close> removes a key, that is, makes it \<open>Undefined\<close>.
\<close>

definition migrateUser :: "User \<Rightarrow> User \<times> bool" where
  "migrateUser stored =
     (let fixedUser = stored;
          needsMigration = False;
          (fixedUser, needsMigration) =
            (if \<not> truthy (departmentId stored) \<and> truthy (department_id stored)
             then (fixedUser\<lparr>departmentId := department_id stored\<rparr>, True)
             else (fixedUser, needsMigration));
          (fixedUser, needsMigration) =
            (if \<not> truthy (departmentName stored) \<and> truthy (department_name stored)
             then (fixedUser\<lparr>departmentName := department_name stored\<rparr>, True)
             else (fixedUser, needsMigration));
          (fixedUser, needsMigration) =
            (if truthy (department_id stored)
             then (fixedUser\<lparr>department_id := Undefined\<rparr>, True)
             else (fixedUser, needsMigration));
          (fixedUser, needsMigration) =
            (if truthy (department_name stored)
             then (fixedUser\<lparr>department_name := Undefined\<rparr>, True)
             else (fixedUser, needsMigration))
      in (fixedUser, needsMigration))"

text \<open>
  The callback of \<open>onRehydrateStorage\<close>. Its argument is the hydrated state, absent when
  nothing could be read; the callback replaces \<open>state.user\<close> in place when a migration was
  needed.
\<close>

definition onRehydrateStorage :: "AuthState option \<Rightarrow> AuthState option" where
  "onRehydrateStorage state =
     (case state of
        None \<Rightarrow> None
      | Some st \<Rightarrow>
          (case user st of
             None \<Rightarrow> Some st
           | Some stored \<Rightarrow>
               (let (fixedUser, needsMigration) = migrateUser stored
                in if needsMigration then Some (st\<lparr>user := Some fixedUser\<rparr>) else Some st)))"

text \<open>The actor of the session after rehydration of the persisted state \<open>st\<close>.\<close>

definition rehydrated_user :: "AuthState \<Rightarrow> User option" where
  "rehydrated_user st =
     (case onRehydrateStorage (Some st) of None \<Rightarrow> None | Some st' \<Rightarrow> user st')"

subsection \<open>The session invariant\<close>

definition session_inv :: "AuthState \<Rightarrow> bool" where
  "session_inv st = (isAuthenticated st = (user st \<noteq> None \<and> accessToken st \<noteq> None))"

text \<open>
  What the store's actions maintain besides the session invariant: an actor is present exactly
  when the session is authenticated, and never without an access token.
\<close>

definition strong_inv :: "AuthState \<Rightarrow> bool" where
  "strong_inv st =
     ((isAuthenticated st = (user st \<noteq> None)) \<and> (user st = None \<or> accessToken st \<noteq> None))"

text \<open>The states the store takes when it starts in its initial state and only its actions run.\<close>

inductive reachable :: "AuthState \<Rightarrow> bool" where
  r_init: "reachable initialState"
| r_login: "reachable st \<Longrightarrow> reachable (login u at rt st)"
| r_logout: "reachable st \<Longrightarrow> reachable (logout st)"
| r_updateUser: "reachable st \<Longrightarrow> reachable (updateUser upd st)"
| r_updateTokens: "reachable st \<Longrightarrow> reachable (updateTokens at rto st)"
| r_setLoading: "reachable st \<Longrightarrow> reachable (setLoading b st)"


section \<open>Authorization predicate (src/pages/Products.tsx, src/pages/Inventory.tsx)\<close>

text \<open>
  Both pages read \<open>user\<close> from the store (\<open>null\<close> when nobody is logged in) and take the
  product as \<open>any\<close>. The staff branch returns \<open>user.departmentId && product.department_id ===
  user.departmentId\<close>; callers only test the result, so the model returns its truthiness.
\<close>

definition canEditProduct :: "User option \<Rightarrow> jsobj \<Rightarrow> bool" where
  "canEditProduct usr product =
     (case usr of
        None \<Rightarrow> False
      | Some u \<Rightarrow>
          if role u = ''manager'' then True
          else if role u = ''staff''
          then truthy (departmentId u) \<and> product ''department_id'' = departmentId u
          else False)"

definition canDeleteProduct :: "User option \<Rightarrow> bool" where
  "canDeleteProduct usr = (case usr of None \<Rightarrow> False | Some u \<Rightarrow> role u = ''manager'')"

definition canAdjustStock :: "User option \<Rightarrow> jsobj \<Rightarrow> bool" where
  "canAdjustStock usr product =
     (case usr of
        None \<Rightarrow> False
      | Some u \<Rightarrow>
          if role u = ''manager'' then True
          else if role u = ''staff''
          then (let canAdjust = truthy (departmentId u) \<and> product ''department_id'' = departmentId u
                in canAdjust)
          else False)"

text \<open>
  "Set", as section 4.3 of the specification says of a department reference, is read as the
  code tests it: the field holds a string that is not empty.
\<close>

definition is_set :: "jsval \<Rightarrow> bool" where
  "is_set v = (\<exists>s. v = Str s \<and> s \<noteq> [])"


section \<open>Stock preview (src/pages/Inventory.tsx)\<close>

subsection \<open>Numbers\<close>

text \<open>
  JavaScript numbers are IEEE 754 doubles. Quantities are counts, so the model covers the
  doubles whose value is an integer (\<open>Finite n\<close>), \<open>NaN\<close> and the two infinities. Every
  integer of magnitude up to \<open>2 ^ 53\<close> is a double; beyond that only every second, fourth, ...
  integer is one. Negative zero is not told apart from zero (both print as 0), and fractions
  are outside the model.

  \<open>ulp m\<close> is the distance between neighbouring doubles at magnitude \<open>m\<close>,
  \<open>round_half_even\<close> rounds a magnitude to the nearest double with ties going to the even
  significand, and \<open>to_double\<close> is the double an exact integer result is rounded to:
  an infinity when the rounded magnitude is beyond the largest double.
\<close>

datatype jsnum = NaN | NegInfinity | Finite int | Infinity

function ulp :: "nat \<Rightarrow> nat" where
  "ulp m = (if m < 2 ^ 53 then 1 else 2 * ulp (m div 2))"
  by pat_completeness auto
termination
  by (relation "measure id") auto

definition round_half_even :: "nat \<Rightarrow> nat" where
  "round_half_even m =
     (let u = ulp m; k = m div u; r = m mod u
      in if 2 * r < u then k * u
         else if u < 2 * r then (k + 1) * u
         else if even k then k * u else (k + 1) * u)"

definition max_double :: nat where
  "max_double = 2 ^ 1024 - 2 ^ 971"

definition to_double :: "int \<Rightarrow> jsnum" where
  "to_double n =
     (let m = round_half_even (nat \<bar>n\<bar>)
      in if max_double < m then (if n < 0 then NegInfinity else Infinity)
         else Finite (if n < 0 then - int m else int m))"

text \<open>Unary minus, \<open>+\<close>, \<open>-\<close> and \<open>>\<close> on numbers.\<close>

fun js_neg :: "jsnum \<Rightarrow> jsnum" where
  "js_neg NaN = NaN"
| "js_neg NegInfinity = Infinity"
| "js_neg (Finite a) = Finite (- a)"
| "js_neg Infinity = NegInfinity"

fun js_add :: "jsnum \<Rightarrow> jsnum \<Rightarrow> jsnum" where
  "js_add (Finite a) (Finite b) = to_double (a + b)"
| "js_add NaN y = NaN"
| "js_add x NaN = NaN"
| "js_add Infinity NegInfinity = NaN"
| "js_add NegInfinity Infinity = NaN"
| "js_add Infinity y = Infinity"
| "js_add x Infinity = Infinity"
| "js_add NegInfinity y = NegInfinity"
| "js_add x NegInfinity = NegInfinity"

definition js_sub :: "jsnum \<Rightarrow> jsnum \<Rightarrow> jsnum" where
  "js_sub x y = js_add x (js_neg y)"

fun js_gt :: "jsnum \<Rightarrow> jsnum \<Rightarrow> bool" where
  "js_gt (Finite a) (Finite b) = (b < a)"
| "js_gt NaN y = False"
| "js_gt x NaN = False"
| "js_gt Infinity y = (y \<noteq> Infinity)"
| "js_gt x Infinity = False"
| "js_gt x NegInfinity = (x \<noteq> NegInfinity)"
| "js_gt NegInfinity y = False"

text \<open>\<open>quantityChanged || 0\<close>: zero and \<open>NaN\<close> are falsy.\<close>

fun or_zero :: "jsnum \<Rightarrow> jsnum" where
  "or_zero NaN = Finite 0"
| "or_zero (Finite q) = (if q = 0 then Finite 0 else Finite q)"
| "or_zero x = x"

subsection \<open>The preview\<close>

datatype ChangeType = Restock | Sale | Adjustment | Return

text \<open>
  \<open>quantityChanged\<close> is the watched form field, registered with \<open>valueAsNumber\<close>: a number,
  \<open>NaN\<close> while the field is empty. \<open>quantity_in_stock\<close> is the selected product's stock, a
  number.
\<close>

text \<open>The sign shown on the "Change:" line of the preview.\<close>

definition previewChangeSign :: "ChangeType \<Rightarrow> char" where
  "previewChangeSign changeType =
     (if changeType = Sale \<or> changeType = Adjustment then CHR ''-'' else CHR ''+'')"

text \<open>The number shown on the "New Stock:" line of the preview.\<close>

definition previewNewStock :: "ChangeType \<Rightarrow> jsnum \<Rightarrow> jsnum \<Rightarrow> jsnum" where
  "previewNewStock changeType quantityChanged quantity_in_stock =
     (if changeType = Sale \<or> (changeType = Adjustment \<and> js_gt quantityChanged quantity_in_stock)
      then js_sub quantity_in_stock (or_zero quantityChanged)
      else js_add quantity_in_stock (or_zero quantityChanged))"


section \<open>Authenticated request pipeline (src/lib/api.ts)\<close>

text \<open>
  A request configuration carries the header the request interceptor writes and the
  \<open>_retry\<close> mark the response interceptor sets on it (\<open>retry\<close>). A rejected call carries
  an error with an optional response (none for a network failure) and a message; of a
  response the interceptors read the status and \<open>data.error\<close>.

  The backend is a parameter: \<open>adapter\<close> answers a request and \<open>post_refresh\<close> answers
  \<open>axios.post('/api/auth/refresh', { refreshToken })\<close> (resolved with the \<open>accessToken\<close> of the
  response body), each from the backend's current state \<open>'w\<close>, which it may change. What
  the client does besides returning is recorded in order in \<open>effects\<close>: requests sent, store
  actions called, the redirect and the toasts.
\<close>

record request =
  url :: string
  headers_Authorization :: "string option"
  retry :: bool

record http_response =
  status :: nat
  data_error :: jsval

record axios_error =
  response :: "http_response option"
  message :: string

type_synonym outcome = "axios_error + http_response"

datatype effect =
    HttpSend request
  | HttpRefresh "string option"
  | StoreUpdateTokens string
  | StoreLogout
  | LocationHref string
  | ToastError string

record 'w net =
  adapter :: "'w \<Rightarrow> request \<Rightarrow> outcome \<times> 'w"
  post_refresh :: "'w \<Rightarrow> string option \<Rightarrow> (axios_error + string) \<times> 'w"

record 'w sys =
  auth :: AuthState
  world :: 'w
  effects :: "effect list"

text \<open>The template literal \<open>Bearer ${token}\<close>.\<close>

definition bearer :: "string \<Rightarrow> string" where
  "bearer token = ''Bearer '' @ token"

definition request_interceptor :: "AuthState \<Rightarrow> request \<Rightarrow> request" where
  "request_interceptor st config =
     (case accessToken st of
        Some token \<Rightarrow>
          if token \<noteq> [] then config\<lparr>headers_Authorization := Some (bearer token)\<rparr>
          else config
      | None \<Rightarrow> config)"

text \<open>\<open>error.response?.status\<close> and \<open>error.response?.data?.error\<close>.\<close>

definition status_of :: "axios_error \<Rightarrow> nat option" where
  "status_of error = (case response error of None \<Rightarrow> None | Some r \<Rightarrow> Some (status r))"

definition data_error_of :: "axios_error \<Rightarrow> jsval" where
  "data_error_of error = (case response error of None \<Rightarrow> Undefined | Some r \<Rightarrow> data_error r)"

definition silentErrors :: "string list" where
  "silentErrors = [''Invalid credentials'', ''User not found'']"

text \<open>
  The general error path ("Handle other errors"): a toast with \<open>data.error\<close> unless it is on
  the silent list, else a toast with the error's message if it has one.
\<close>

definition other_errors :: "axios_error \<Rightarrow> effect list" where
  "other_errors error =
     (case data_error_of error of
        Str e \<Rightarrow>
          if e \<noteq> [] then (if e \<notin> set silentErrors then [ToastError e] else [])
          else if message error \<noteq> [] then [ToastError (message error)] else []
      | _ \<Rightarrow> if message error \<noteq> [] then [ToastError (message error)] else [])"

definition emit :: "effect list \<Rightarrow> 'w sys \<Rightarrow> 'w sys" where
  "emit es s = s\<lparr>effects := effects s @ es\<rparr>"

text \<open>
  \<open>api\<close> is a call through the axios instance: the request interceptor, the exchange, and for
  a rejected exchange the error handler of the response interceptor (\<open>response_rejected\<close>),
  whose \<open>originalRequest\<close> is the configuration that was sent. A resolved call passes the
  response interceptor unchanged.

  The handler reads \<open>refreshToken\<close> from the store when it starts. In the \<open>try\<close> block a
  rejected refresh call is the only thing the \<open>catch\<close> block sees: the retry is returned
  without \<open>await\<close>, so its outcome, resolved or rejected, is the handler's outcome. The retry
  is again a call through the instance, with the \<open>_retry\<close> mark kept on the configuration;
  the mark bounds the recursion.
\<close>

function api :: "'w net \<Rightarrow> request \<Rightarrow> 'w sys \<Rightarrow> outcome \<times> 'w sys"
  and response_rejected :: "'w net \<Rightarrow> axios_error \<Rightarrow> request \<Rightarrow> 'w sys \<Rightarrow> outcome \<times> 'w sys"
where
  "api nw config s =
     (let config1 = request_interceptor (auth s) config in
      case adapter nw (world s) config1 of
        (Inr resp, w1) \<Rightarrow> (Inr resp, emit [HttpSend config1] (s\<lparr>world := w1\<rparr>))
      | (Inl error, w1) \<Rightarrow>
          response_rejected nw error config1 (emit [HttpSend config1] (s\<lparr>world := w1\<rparr>)))"
| "response_rejected nw error originalRequest s =
     (let refreshTok = refreshToken (auth s) in
      if status_of error = Some 401 \<and> \<not> retry originalRequest \<and> truthy_string refreshTok
      then
        (let originalRequest1 = originalRequest\<lparr>retry := True\<rparr> in
         case post_refresh nw (world s) refreshTok of
           (Inr accessTok, w1) \<Rightarrow>
             (let s1 = emit [HttpRefresh refreshTok] (s\<lparr>world := w1\<rparr>);
                  s2 = emit [StoreUpdateTokens accessTok]
                         (s1\<lparr>auth := updateTokens accessTok None (auth s1)\<rparr>);
                  originalRequest2 =
                    originalRequest1\<lparr>headers_Authorization := Some (bearer accessTok)\<rparr>
              in api nw originalRequest2 s2)
         | (Inl refreshError, w1) \<Rightarrow>
             (let s1 = emit [HttpRefresh refreshTok] (s\<lparr>world := w1\<rparr>);
                  s2 = emit [StoreLogout] (s1\<lparr>auth := logout (auth s1)\<rparr>);
                  s3 = emit [LocationHref ''/login''] s2;
                  s4 = emit [ToastError ''Session expired. Please login again.''] s3
              in (Inl refreshError, s4)))
      else (Inl error, emit (other_errors error) s))"
  by pat_completeness auto
termination
  apply (relation "measure (\<lambda>x. case x of
            Inl (nw, config, s) \<Rightarrow> (if retry config then 1 else 3)
          | Inr (nw, error, originalRequest, s) \<Rightarrow> (if retry originalRequest then 0 else 2))")
  apply (auto simp: request_interceptor_def split: option.splits)
  done


section \<open>Sample inputs\<close>

definition staff_D1 :: User where
  "staff_D1 =
     \<lparr>id' = ''u-17'', name = ''Sam Staff'', email = ''sam@example.com'', role = ''staff'',
      departmentId = Str ''D1'', departmentName = Str ''Hardware'', phone = Undefined,
      lastLogin = Undefined, createdAt = ''2024-03-01'',
      department_id = Undefined, department_name = Undefined\<rparr>"

definition manager_M :: User where
  "manager_M = staff_D1\<lparr>id' := ''u-1'', name := ''Mia Manager'', role := ''manager'',
                        departmentId := Undefined, departmentName := Undefined\<rparr>"

definition auditor_A :: User where
  "auditor_A = staff_D1\<lparr>id' := ''u-9'', role := ''auditor''\<rparr>"

definition legacy_user :: User where
  "legacy_user = staff_D1\<lparr>departmentId := Undefined, departmentName := Undefined,
                          department_id := Str ''D1'', department_name := Str ''Hardware''\<rparr>"

text \<open>
  The actor as the login page persists it (the backend's user with \<open>departmentId\<close> and
  \<open>departmentName\<close> added beside the snake-case keys), a legacy record of a manager without
  department, and a record whose two spellings disagree.
\<close>

definition both_keys_user :: User where
  "both_keys_user = staff_D1\<lparr>department_id := Str ''D1'', department_name := Str ''Hardware''\<rparr>"

definition null_legacy_user :: User where
  "null_legacy_user = manager_M\<lparr>department_id := Null, department_name := Null\<rparr>"

definition conflicting_user :: User where
  "conflicting_user = staff_D1\<lparr>department_id := Str ''D2'', department_name := Str ''Garden''\<rparr>"

text \<open>A product object whose only key of interest is \<open>department_id\<close>.\<close>

definition product_in :: "jsval \<Rightarrow> jsobj" where
  "product_in d = (\<lambda>k. if k = ''department_id'' then d else Undefined)"

text \<open>A state with an actor but no access token, as a persisted record can hold it.\<close>

definition half_session :: AuthState where
  "half_session =
     \<lparr>user = Some staff_D1, accessToken = None, refreshToken = None,
      isAuthenticated = False, isLoading = False\<rparr>"

text \<open>Backend answers and sessions for the request pipeline.\<close>

definition unauthorized_error :: axios_error where
  "unauthorized_error =
     \<lparr>response = Some \<lparr>status = 401, data_error = Str ''Token expired''\<rparr>,
      message = ''Request failed with status code 401''\<rparr>"

definition refresh_rejected :: axios_error where
  "refresh_rejected =
     \<lparr>response = Some \<lparr>status = 403, data_error = Str ''Invalid refresh token''\<rparr>,
      message = ''Request failed with status code 403''\<rparr>"

definition ok_response :: http_response where
  "ok_response = \<lparr>status = 200, data_error = Undefined\<rparr>"

text \<open>
  A backend that accepts only the access token \<open>fresh\<close>, and mints it for the refresh token
  \<open>refresh-1\<close>. Its state counts the exchanges.
\<close>

definition demo_backend :: "nat net" where
  "demo_backend =
     \<lparr>adapter = (\<lambda>w req.
         if headers_Authorization req = Some (bearer ''fresh'')
         then (Inr ok_response, Suc w) else (Inl unauthorized_error, Suc w)),
      post_refresh = (\<lambda>w rt.
         if rt = Some ''refresh-1'' then (Inr ''fresh'', Suc w) else (Inl refresh_rejected, Suc w))\<rparr>"

text \<open>A backend that answers every request with 401, whatever token it carries.\<close>

definition strict_backend :: "nat net" where
  "strict_backend = demo_backend\<lparr>adapter := (\<lambda>w req. (Inl unauthorized_error, Suc w))\<rparr>"

definition demo_request :: request where
  "demo_request = \<lparr>url = ''/products'', headers_Authorization = None, retry = False\<rparr>"

definition demo_sys :: "nat sys" where
  "demo_sys = \<lparr>auth = login staff_D1 ''stale'' ''refresh-1'' initialState, world = 0, effects = []\<rparr>"

definition expired_sys :: "nat sys" where
  "expired_sys = \<lparr>auth = login staff_D1 ''stale'' ''refresh-0'' initialState, world = 0, effects = []\<rparr>"

definition norefresh_sys :: "nat sys" where
  "norefresh_sys =
     \<lparr>auth = (login staff_D1 ''stale'' ''refresh-1'' initialState)\<lparr>refreshToken := None\<rparr>,
      world = 0, effects = []\<rparr>"


section \<open>Stock preview: theorems\<close>

lemma round_half_even_safe: "m \<le> 2 ^ 53 \<Longrightarrow> round_half_even m = m"
proof (cases "m < 2 ^ 53")
  case True
  then show ?thesis by (simp add: round_half_even_def)
next
  case False
  assume "m \<le> 2 ^ 53"
  with False have m: "m = 2 ^ 53" by simp
  have "ulp (2 ^ 53) = 2" by (subst ulp.simps) simp
  then show ?thesis unfolding m by (simp add: round_half_even_def)
qed

lemma to_double_safe: "\<bar>n\<bar> \<le> 2 ^ 53 \<Longrightarrow> to_double n = Finite n"
proof -
  assume a: "\<bar>n\<bar> \<le> 2 ^ 53"
  then have "nat \<bar>n\<bar> \<le> 2 ^ 53" by simp
  then have r: "round_half_even (nat \<bar>n\<bar>) = nat \<bar>n\<bar>" by (rule round_half_even_safe)
  have "nat \<bar>n\<bar> \<le> max_double" using a by (simp add: max_double_def)
  then show ?thesis by (auto simp add: to_double_def r Let_def)
qed

text \<open>
  C1, as amended. For integer quantities in the safe range (the current quantity, the entered
  quantity and their difference of magnitude at most \<open>2 ^ 53\<close>): for an adjustment whose
  entered quantity exceeds the current quantity, the previewed new quantity is the current
  quantity minus the entered quantity, a negative number that is shown as it is. A current
  quantity of 10 and an entered quantity of 15 give -5.
\<close>

theorem preview_adjustment_exceeding:
  assumes "\<bar>prev\<bar> \<le> 2 ^ 53" and "\<bar>q\<bar> \<le> 2 ^ 53" and "\<bar>prev - q\<bar> \<le> 2 ^ 53"
    and "prev < q"
  shows "previewNewStock Adjustment (Finite q) (Finite prev) = Finite (prev - q)"
  using assms by (simp add: previewNewStock_def js_sub_def to_double_safe)

theorem preview_adjustment_exceeding_witness:
  "\<bar>10::int\<bar> \<le> 2 ^ 53 \<and> \<bar>15::int\<bar> \<le> 2 ^ 53 \<and> \<bar>10 - 15::int\<bar> \<le> 2 ^ 53 \<and> (10::int) < 15
   \<and> previewNewStock Adjustment (Finite 15) (Finite 10) = Finite (- 5)"
proof -
  have h: "\<bar>10::int\<bar> \<le> 2 ^ 53" "\<bar>15::int\<bar> \<le> 2 ^ 53" "\<bar>10 - 15::int\<bar> \<le> 2 ^ 53" "(10::int) < 15"
    by simp_all
  from preview_adjustment_exceeding [OF h] h show ?thesis by simp
qed

text \<open>
  The rule of C1 as the specification words it (subtract when the entered quantity does not
  exceed the current quantity, add otherwise, so that 10 and 3 give 7 and 10 and 15 give 25)
  is not what the preview computes: it shows 13 and -5.
\<close>

theorem preview_adjustment_counterexample:
  "previewNewStock Adjustment (Finite 3) (Finite 10) = Finite 13
   \<and> previewNewStock Adjustment (Finite 3) (Finite 10) \<noteq> Finite (10 - 3)
   \<and> previewNewStock Adjustment (Finite 15) (Finite 10) = Finite (- 5)
   \<and> previewNewStock Adjustment (Finite 15) (Finite 10) \<noteq> Finite (10 + 15)"
  by (simp add: previewNewStock_def js_sub_def to_double_safe)

text \<open>
  For an adjustment that does not exceed the current quantity the two lines of the preview
  disagree: the "Change:" line shows a minus sign, the "New Stock:" line adds.
\<close>

lemma preview_adjustment_sign_disagrees:
  "previewChangeSign Adjustment = CHR ''-''
   \<and> previewNewStock Adjustment (Finite 3) (Finite 10) = Finite (10 + 3)"
  by (simp add: previewChangeSign_def previewNewStock_def to_double_safe)

text \<open>
  Beyond the safe range the subtraction rounds: a current quantity of 1 and an entered quantity
  of \<open>2 ^ 53 + 2\<close> show \<open>- (2 ^ 53)\<close>, not \<open>- (2 ^ 53 + 1)\<close>.
\<close>

lemma preview_adjustment_rounds:
  "previewNewStock Adjustment (Finite 9007199254740994) (Finite 1) = Finite (- 9007199254740992)"
  by (simp add: previewNewStock_def js_sub_def to_double_def round_half_even_def max_double_def)

text \<open>
  C5, as amended. For integer quantities in the safe range (the current quantity, the entered
  quantity and the result of magnitude at most \<open>2 ^ 53\<close>): for restock and return the
  previewed new quantity is the current quantity plus the entered quantity; for sale it is
  the current quantity minus the entered quantity, exactly and without clamping of a negative
  result. In particular 10 restocked by 5 gives 15, and 10 with a sale of 3 gives 7.
\<close>

theorem preview_restock_return_sale:
  assumes "\<bar>prev\<bar> \<le> 2 ^ 53" and "\<bar>q\<bar> \<le> 2 ^ 53"
  shows "(\<bar>prev + q\<bar> \<le> 2 ^ 53 \<longrightarrow>
            previewNewStock Restock (Finite q) (Finite prev) = Finite (prev + q)
            \<and> previewNewStock Return (Finite q) (Finite prev) = Finite (prev + q))
     \<and> (\<bar>prev - q\<bar> \<le> 2 ^ 53 \<longrightarrow>
            previewNewStock Sale (Finite q) (Finite prev) = Finite (prev - q))
     \<and> previewNewStock Restock (Finite 5) (Finite 10) = Finite 15
     \<and> previewNewStock Sale (Finite 3) (Finite 10) = Finite 7"
  by (simp add: previewNewStock_def js_sub_def to_double_safe)

theorem preview_restock_return_sale_witness:
  "\<bar>1::int\<bar> \<le> 2 ^ 53 \<and> \<bar>3::int\<bar> \<le> 2 ^ 53 \<and> \<bar>1 + 3::int\<bar> \<le> 2 ^ 53 \<and> \<bar>1 - 3::int\<bar> \<le> 2 ^ 53
   \<and> previewNewStock Restock (Finite 3) (Finite 1) = Finite 4
   \<and> previewNewStock Return (Finite 3) (Finite 1) = Finite 4
   \<and> previewNewStock Sale (Finite 3) (Finite 1) = Finite (- 2)"
proof -
  have h: "\<bar>1::int\<bar> \<le> 2 ^ 53" "\<bar>3::int\<bar> \<le> 2 ^ 53"
    by simp_all
  have b: "\<bar>1 + 3::int\<bar> \<le> 2 ^ 53" "\<bar>1 - 3::int\<bar> \<le> 2 ^ 53"
    by simp_all
  from preview_restock_return_sale [OF h] h b show ?thesis by simp
qed

text \<open>
  The equations of C5 do not hold for all values: the preview adds doubles. With a current
  quantity of \<open>2 ^ 53\<close> a restock of 1 shows \<open>2 ^ 53\<close> again, and so does a current quantity
  of 1 with \<open>2 ^ 53\<close> entered.
\<close>

theorem preview_restock_counterexample:
  "previewNewStock Restock (Finite 1) (Finite 9007199254740992) = Finite 9007199254740992
   \<and> previewNewStock Restock (Finite 1) (Finite 9007199254740992) \<noteq> Finite (9007199254740992 + 1)
   \<and> previewNewStock Restock (Finite 9007199254740992) (Finite 1) = Finite 9007199254740992
   \<and> previewNewStock Restock (Finite 9007199254740992) (Finite 1) \<noteq> Finite (1 + 9007199254740992)"
  by (simp add: previewNewStock_def to_double_def round_half_even_def max_double_def)


section \<open>Authorization predicate: theorems\<close>

lemma truthy_is_set: "truthy v = is_set v"
  by (cases v) (simp_all add: is_set_def)

text \<open>
  C2. The predicate for editing a product denies when there is no actor, allows every
  manager, allows a staff member iff the actor's department is set and equals the product's
  department (so a staff member without a department is denied for every product, and a
  product without a department is denied to every staff member), and denies every other role.
  The predicate for adjusting stock is the same predicate. Deletion is allowed iff the actor
  is a manager, whatever the departments.
\<close>

theorem authorization_predicate:
  "\<not> canEditProduct None product
   \<and> (role m = ''manager'' \<longrightarrow> canEditProduct (Some m) product)
   \<and> (role a = ''staff'' \<longrightarrow>
        canEditProduct (Some a) product
          = (is_set (departmentId a) \<and> departmentId a = product ''department_id''))
   \<and> (role a = ''staff'' \<and> \<not> is_set (departmentId a) \<longrightarrow> \<not> canEditProduct (Some a) product)
   \<and> (role a' = ''staff'' \<and> \<not> is_set (product' ''department_id'') \<longrightarrow> \<not> canEditProduct (Some a') product')
   \<and> (role x \<noteq> ''manager'' \<and> role x \<noteq> ''staff'' \<longrightarrow> \<not> canEditProduct (Some x) product)
   \<and> canAdjustStock actor product = canEditProduct actor product
   \<and> canDeleteProduct actor = (\<exists>u. actor = Some u \<and> role u = ''manager'')"
  by (auto simp: canEditProduct_def canAdjustStock_def canDeleteProduct_def truthy_is_set
           split: option.splits)

text \<open>
  The examples of section 8 of the specification: a manager, and a staff member of department
  D1 against products of D1, of D2 and of no department.
\<close>

theorem authorization_predicate_witness:
  "role manager_M = ''manager'' \<and> role staff_D1 = ''staff'' \<and> role auditor_A = ''auditor''
   \<and> canEditProduct (Some manager_M) (product_in Null)
   \<and> canEditProduct (Some staff_D1) (product_in (Str ''D1''))
   \<and> \<not> canEditProduct (Some staff_D1) (product_in (Str ''D2''))
   \<and> \<not> canEditProduct (Some staff_D1) (product_in Null)
   \<and> \<not> canEditProduct (Some (staff_D1\<lparr>departmentId := Undefined\<rparr>)) (product_in Undefined)
   \<and> \<not> canEditProduct (Some auditor_A) (product_in (Str ''D1''))
   \<and> canAdjustStock (Some staff_D1) (product_in (Str ''D1''))
   \<and> canDeleteProduct (Some manager_M) \<and> \<not> canDeleteProduct (Some staff_D1)
   \<and> \<not> canDeleteProduct None"
  using authorization_predicate [of "product_in Null" manager_M staff_D1 staff_D1 "product_in Null" auditor_A "Some manager_M"]
    authorization_predicate [of "product_in (Str ''D1'')" manager_M staff_D1 staff_D1 "product_in Null" auditor_A "Some staff_D1"]
    authorization_predicate [of "product_in (Str ''D2'')" manager_M staff_D1 staff_D1 "product_in Null" auditor_A "None"]
    authorization_predicate [of "product_in Undefined" manager_M "staff_D1\<lparr>departmentId := Undefined\<rparr>"]
  by (simp add: manager_M_def staff_D1_def auditor_A_def product_in_def is_set_def)


text \<open>
  A department reference that is the empty string counts as not set: the staff branch tests
  \<open>user.departmentId\<close> for truthiness.
\<close>

lemma canEditProduct_empty_department:
  "role u = ''staff'' \<Longrightarrow> departmentId u = Str [] \<Longrightarrow> \<not> canEditProduct (Some u) product"
  by (simp add: canEditProduct_def)


section \<open>Session Store: theorems\<close>

text \<open>
  C7, as amended. In every state, with or without a session, \<open>updateTokens\<close> writes the
  given access token; it writes the refresh token when a non-empty one is given and keeps the
  stored one otherwise; the actor, \<open>isAuthenticated\<close> and \<open>isLoading\<close> are unchanged.
\<close>

theorem updateTokens_always_writes:
  "accessToken (updateTokens at rt st) = Some at
   \<and> refreshToken (updateTokens at rt st) = (if truthy_string rt then rt else refreshToken st)
   \<and> user (updateTokens at rt st) = user st
   \<and> isAuthenticated (updateTokens at rt st) = isAuthenticated st
   \<and> isLoading (updateTokens at rt st) = isLoading st"
  by (simp add: updateTokens_def)

text \<open>
  \<open>updateTokens\<close> is not a no-op when nobody is logged in: in the initial state it stores the
  access token.
\<close>

theorem updateTokens_counterexample:
  "user initialState = None \<and> \<not> isAuthenticated initialState
   \<and> updateTokens ''fresh'' None initialState \<noteq> initialState
   \<and> accessToken (updateTokens ''fresh'' None initialState) = Some ''fresh''"
  by (simp add: updateTokens_def initialState_def)

lemma migrateUser_closed_form:
  "fst (migrateUser stored)
     = stored\<lparr>departmentId :=
                 (if \<not> truthy (departmentId stored) \<and> truthy (department_id stored)
                  then department_id stored else departmentId stored),
               departmentName :=
                 (if \<not> truthy (departmentName stored) \<and> truthy (department_name stored)
                  then department_name stored else departmentName stored),
               department_id :=
                 (if truthy (department_id stored) then Undefined else department_id stored),
               department_name :=
                 (if truthy (department_name stored) then Undefined else department_name stored)\<rparr>"
  by (simp add: migrateUser_def)

lemma migrateUser_needed:
  "snd (migrateUser stored) = (truthy (department_id stored) \<or> truthy (department_name stored))"
  by (auto simp add: migrateUser_def)

lemma migrateUser_not_needed:
  "\<not> snd (migrateUser stored) \<Longrightarrow> fst (migrateUser stored) = stored"
  by (simp add: migrateUser_needed migrateUser_closed_form)

lemma rehydrated_user_eq:
  "user st = Some stored \<Longrightarrow> rehydrated_user st = Some (fst (migrateUser stored))"
  using migrateUser_not_needed [of stored]
  by (cases "migrateUser stored") (auto simp add: rehydrated_user_def onRehydrateStorage_def)

text \<open>
  C8, as amended. For every persisted session with a stored user, rehydration changes at most
  the four department fields of the actor. A legacy key (\<open>department_id\<close>,
  \<open>department_name\<close>) that holds a non-empty value is removed, and its value is carried over
  to the structured field (\<open>departmentId\<close>, \<open>departmentName\<close>) when that field is unset or
  empty; a structured field that already has a value keeps it. A legacy key that holds
  \<open>null\<close> or the empty string stays as it is and nothing is copied from it.
\<close>

theorem rehydrate_migration:
  assumes "user st = Some stored"
  shows "onRehydrateStorage (Some st) =
           Some (st\<lparr>user := Some (stored\<lparr>
              departmentId :=
                (if \<not> truthy (departmentId stored) \<and> truthy (department_id stored)
                 then department_id stored else departmentId stored),
              departmentName :=
                (if \<not> truthy (departmentName stored) \<and> truthy (department_name stored)
                 then department_name stored else departmentName stored),
              department_id :=
                (if truthy (department_id stored) then Undefined else department_id stored),
              department_name :=
                (if truthy (department_name stored) then Undefined
                 else department_name stored)\<rparr>)\<rparr>)
     \<and> (truthy (department_id stored) \<longrightarrow>
            map_option department_id (rehydrated_user st) = Some Undefined)
     \<and> (truthy (department_name stored) \<longrightarrow>
            map_option department_name (rehydrated_user st) = Some Undefined)
     \<and> (truthy (department_id stored) \<and> \<not> truthy (departmentId stored) \<longrightarrow>
            map_option departmentId (rehydrated_user st) = Some (department_id stored))
     \<and> (truthy (department_name stored) \<and> \<not> truthy (departmentName stored) \<longrightarrow>
            map_option departmentName (rehydrated_user st) = Some (department_name stored))
     \<and> (truthy (departmentId stored) \<longrightarrow>
            map_option departmentId (rehydrated_user st) = Some (departmentId stored))
     \<and> (truthy (departmentName stored) \<longrightarrow>
            map_option departmentName (rehydrated_user st) = Some (departmentName stored))
     \<and> (\<not> truthy (department_id stored) \<longrightarrow>
            map_option department_id (rehydrated_user st) = Some (department_id stored)
            \<and> map_option departmentId (rehydrated_user st) = Some (departmentId stored))
     \<and> (\<not> truthy (department_name stored) \<longrightarrow>
            map_option department_name (rehydrated_user st) = Some (department_name stored)
            \<and> map_option departmentName (rehydrated_user st) = Some (departmentName stored))"
proof -
  have a: "rehydrated_user st = Some (fst (migrateUser stored))"
    by (rule rehydrated_user_eq [OF assms])
  have b: "onRehydrateStorage (Some st) = Some (st\<lparr>user := Some (fst (migrateUser stored))\<rparr>)"
    using assms migrateUser_not_needed [of stored]
    by (cases "migrateUser stored") (auto simp add: onRehydrateStorage_def)
  show ?thesis
    unfolding a b by (simp add: migrateUser_closed_form)
qed

text \<open>
  The record the login page persists, with both spellings, and a legacy record with the
  snake-case keys only: both rehydrate to the actor with the structured fields alone. A
  legacy record whose keys hold \<open>null\<close> rehydrates unchanged.
\<close>

theorem rehydrate_migration_witness:
  "user (login both_keys_user ''a1'' ''r1'' initialState) = Some both_keys_user
   \<and> user (login legacy_user ''a1'' ''r1'' initialState) = Some legacy_user
   \<and> user (login null_legacy_user ''a1'' ''r1'' initialState) = Some null_legacy_user
   \<and> truthy (department_id both_keys_user) \<and> truthy (departmentId both_keys_user)
   \<and> truthy (department_name both_keys_user) \<and> truthy (departmentName both_keys_user)
   \<and> truthy (department_id legacy_user) \<and> \<not> truthy (departmentId legacy_user)
   \<and> truthy (department_name legacy_user) \<and> \<not> truthy (departmentName legacy_user)
   \<and> \<not> truthy (department_id null_legacy_user) \<and> \<not> truthy (department_name null_legacy_user)
   \<and> onRehydrateStorage (Some (login both_keys_user ''a1'' ''r1'' initialState))
       = Some (login staff_D1 ''a1'' ''r1'' initialState)
   \<and> onRehydrateStorage (Some (login legacy_user ''a1'' ''r1'' initialState))
       = Some (login staff_D1 ''a1'' ''r1'' initialState)
   \<and> onRehydrateStorage (Some (login null_legacy_user ''a1'' ''r1'' initialState))
       = Some (login null_legacy_user ''a1'' ''r1'' initialState)
   \<and> map_option department_id (rehydrated_user (login both_keys_user ''a1'' ''r1'' initialState))
       = Some Undefined"
proof -
  have h1: "user (login both_keys_user ''a1'' ''r1'' initialState) = Some both_keys_user"
    and h2: "user (login legacy_user ''a1'' ''r1'' initialState) = Some legacy_user"
    and h3: "user (login null_legacy_user ''a1'' ''r1'' initialState) = Some null_legacy_user"
    by (simp_all add: login_def)
  have t: "truthy (department_id both_keys_user)" "truthy (departmentId both_keys_user)"
    "truthy (department_name both_keys_user)" "truthy (departmentName both_keys_user)"
    "truthy (department_id legacy_user)" "\<not> truthy (departmentId legacy_user)"
    "truthy (department_name legacy_user)" "\<not> truthy (departmentName legacy_user)"
    "\<not> truthy (department_id null_legacy_user)" "\<not> truthy (department_name null_legacy_user)"
    by (simp_all add: both_keys_user_def legacy_user_def null_legacy_user_def manager_M_def
          staff_D1_def)
  from rehydrate_migration [OF h1] rehydrate_migration [OF h2] rehydrate_migration [OF h3]
    h1 h2 h3 t
  show ?thesis
    by (simp add: both_keys_user_def legacy_user_def null_legacy_user_def manager_M_def
          staff_D1_def login_def)
qed

text \<open>
  C8 as the specification words it does not hold for every stored user with legacy keys: a
  legacy key that holds \<open>null\<close> is still there after rehydration, and where the two
  spellings disagree the structured field keeps its own value, not the legacy one.
\<close>

theorem rehydrate_migration_counterexample:
  "department_id null_legacy_user = Null
   \<and> map_option department_id
        (rehydrated_user (login null_legacy_user ''a1'' ''r1'' initialState)) = Some Null
   \<and> map_option department_id
        (rehydrated_user (login null_legacy_user ''a1'' ''r1'' initialState)) \<noteq> Some Undefined
   \<and> department_id conflicting_user = Str ''D2''
   \<and> map_option departmentId
        (rehydrated_user (login conflicting_user ''a1'' ''r1'' initialState)) = Some (Str ''D1'')
   \<and> map_option departmentId
        (rehydrated_user (login conflicting_user ''a1'' ''r1'' initialState))
       \<noteq> Some (department_id conflicting_user)"
  by (simp add: rehydrated_user_def onRehydrateStorage_def migrateUser_def login_def
        null_legacy_user_def conflicting_user_def manager_M_def staff_D1_def)

lemma strong_inv_session_inv: "strong_inv st \<Longrightarrow> session_inv st"
  by (auto simp: strong_inv_def session_inv_def)

lemma reachable_strong_inv: "reachable st \<Longrightarrow> strong_inv st"
proof (induction rule: reachable.induct)
  case r_init
  show ?case by (simp add: strong_inv_def initialState_def)
next
  case (r_login st u at rt)
  show ?case by (simp add: strong_inv_def login_def)
next
  case (r_logout st)
  show ?case by (simp add: strong_inv_def logout_def)
next
  case (r_updateUser st upd)
  then show ?case by (auto simp: strong_inv_def updateUser_def split: option.splits)
next
  case (r_updateTokens st at rto)
  then show ?case by (auto simp: strong_inv_def updateTokens_def)
next
  case (r_setLoading st b)
  then show ?case by (simp add: strong_inv_def setLoading_def)
qed

text \<open>
  C9, as amended. The session invariant holds in the initial state and in every state the
  store reaches from it through \<open>login\<close>, \<open>logout\<close>, \<open>updateUser\<close>, \<open>updateTokens\<close> and
  \<open>setLoading\<close>, whatever their arguments. \<open>login\<close> and \<open>logout\<close> establish it from any
  state and \<open>updateUser\<close> preserves it from any state; \<open>updateTokens\<close> preserves it from the
  states in which an actor, if present, already has an access token.
\<close>

theorem session_invariant_reachable:
  "session_inv initialState
   \<and> session_inv (login u at rt st0)
   \<and> session_inv (logout st0)
   \<and> (session_inv st1 \<longrightarrow> session_inv (updateUser upd st1))
   \<and> (session_inv st2 \<and> (user st2 = None \<or> accessToken st2 \<noteq> None)
        \<longrightarrow> session_inv (updateTokens at' rto st2))
   \<and> (reachable st \<longrightarrow> session_inv st)"
proof -
  have "session_inv initialState"
    by (simp add: session_inv_def initialState_def)
  moreover have "session_inv (login u at rt st0)"
    by (simp add: session_inv_def login_def)
  moreover have "session_inv (logout st0)"
    by (simp add: session_inv_def logout_def)
  moreover have "session_inv st1 \<longrightarrow> session_inv (updateUser upd st1)"
    by (auto simp: session_inv_def updateUser_def split: option.splits)
  moreover have "session_inv st2 \<and> (user st2 = None \<or> accessToken st2 \<noteq> None)
        \<longrightarrow> session_inv (updateTokens at' rto st2)"
    by (auto simp: session_inv_def updateTokens_def)
  moreover have "reachable st \<longrightarrow> session_inv st"
    using strong_inv_session_inv [OF reachable_strong_inv] by blast
  ultimately show ?thesis by blast
qed

theorem session_invariant_reachable_witness:
  "session_inv (login staff_D1 ''a1'' ''r1'' initialState)
   \<and> (user (login staff_D1 ''a1'' ''r1'' initialState) = None
        \<or> accessToken (login staff_D1 ''a1'' ''r1'' initialState) \<noteq> None)
   \<and> reachable (updateTokens ''a2'' None (login staff_D1 ''a1'' ''r1'' (logout initialState)))
   \<and> session_inv (updateUser [Set_name ''Sam S.''] (login staff_D1 ''a1'' ''r1'' initialState))
   \<and> session_inv (updateTokens ''a2'' (Some ''r2'') (login staff_D1 ''a1'' ''r1'' initialState))
   \<and> session_inv (updateTokens ''a2'' None (login staff_D1 ''a1'' ''r1'' (logout initialState)))"
proof -
  let ?s = "login staff_D1 ''a1'' ''r1'' initialState"
  let ?r = "updateTokens ''a2'' None (login staff_D1 ''a1'' ''r1'' (logout initialState))"
  have h1: "session_inv ?s"
    by (simp add: session_inv_def login_def)
  have h2: "user ?s = None \<or> accessToken ?s \<noteq> None"
    by (simp add: login_def)
  have h3: "reachable ?r"
    by (intro reachable.intros)
  from session_invariant_reachable
         [of staff_D1 "''a1''" "''r1''" initialState ?s "[Set_name ''Sam S.'']" ?s "''a2''"
             "Some ''r2''" ?r]
       h1 h2 h3
  show ?thesis by blast
qed

text \<open>
  The invariant is not preserved by \<open>updateTokens\<close> from every state that satisfies it: from
  a state with an actor and no access token, as a persisted record can hold it, the action
  stores a token and leaves \<open>isAuthenticated\<close> false.
\<close>

theorem session_invariant_counterexample:
  "session_inv half_session \<and> \<not> session_inv (updateTokens ''fresh'' None half_session)"
  by (simp add: session_inv_def half_session_def updateTokens_def)


section \<open>Request pipeline: theorems\<close>

declare api.simps [simp del] response_rejected.simps [simp del]

lemma retry_request_interceptor: "retry (request_interceptor st config) = retry config"
  by (simp add: request_interceptor_def split: option.splits)

lemma request_interceptor_same_token:
  "accessToken st = Some tok \<Longrightarrow>
   request_interceptor st (req\<lparr>headers_Authorization := Some (bearer tok)\<rparr>)
     = req\<lparr>headers_Authorization := Some (bearer tok)\<rparr>"
  by (simp add: request_interceptor_def)

lemma api_resolved:
  "adapter nw (world s) (request_interceptor (auth s) config) = (Inr resp, w1) \<Longrightarrow>
   api nw config s
     = (Inr resp, emit [HttpSend (request_interceptor (auth s) config)] (s\<lparr>world := w1\<rparr>))"
  by (simp add: api.simps Let_def)

lemma api_rejected:
  "adapter nw (world s) (request_interceptor (auth s) config) = (Inl error, w1) \<Longrightarrow>
   api nw config s
     = response_rejected nw error (request_interceptor (auth s) config)
         (emit [HttpSend (request_interceptor (auth s) config)] (s\<lparr>world := w1\<rparr>))"
  by (simp add: api.simps Let_def)

lemma response_rejected_passthrough:
  assumes "retry req \<or> \<not> truthy_string (refreshToken (auth s)) \<or> status_of error \<noteq> Some 401"
  shows "response_rejected nw error req s
           = (Inl error, \<lparr>auth = auth s, world = world s,
                           effects = effects s @ other_errors error\<rparr>)"
  using assms by (cases s) (auto simp add: response_rejected.simps emit_def Let_def)

lemma response_rejected_refresh_failed:
  assumes "status_of error = Some 401" and "\<not> retry req"
    and "truthy_string (refreshToken (auth s))"
    and "post_refresh nw (world s) (refreshToken (auth s)) = (Inl refreshError, w1)"
  shows "response_rejected nw error req s
           = (Inl refreshError,
              \<lparr>auth = logout (auth s), world = w1,
               effects = effects s @ [HttpRefresh (refreshToken (auth s)), StoreLogout,
                            LocationHref ''/login'',
                            ToastError ''Session expired. Please login again.'']\<rparr>)"
  using assms by (cases s) (simp add: response_rejected.simps emit_def Let_def)

lemma response_rejected_refresh_ok:
  assumes "status_of error = Some 401" and "\<not> retry req"
    and "truthy_string (refreshToken (auth s))"
    and "post_refresh nw (world s) (refreshToken (auth s)) = (Inr accessTok, w1)"
  shows "response_rejected nw error req s
           = api nw (req\<lparr>retry := True, headers_Authorization := Some (bearer accessTok)\<rparr>)
               \<lparr>auth = updateTokens accessTok None (auth s), world = w1,
                effects = effects s @ [HttpRefresh (refreshToken (auth s)),
                             StoreUpdateTokens accessTok]\<rparr>"
  using assms by (cases s) (simp add: response_rejected.simps emit_def Let_def)

lemma api_refresh_retry:
  fixes nw :: "'w net"
  assumes first: "adapter nw (world s) (request_interceptor (auth s) config) = (Inl error, w1)"
    and unauthorized: "status_of error = Some 401"
    and first_time: "\<not> retry config"
    and has_refresh: "truthy_string (refreshToken (auth s))"
    and refreshed: "post_refresh nw w1 (refreshToken (auth s)) = (Inr accessTok, w2)"
    and reissued: "adapter nw w2
        ((request_interceptor (auth s) config)
           \<lparr>retry := True, headers_Authorization := Some (bearer accessTok)\<rparr>) = (res, w3)"
  shows "api nw config s
           = (res,
              \<lparr>auth = updateTokens accessTok None (auth s), world = w3,
               effects = effects s @
                 [HttpSend (request_interceptor (auth s) config),
                  HttpRefresh (refreshToken (auth s)),
                  StoreUpdateTokens accessTok,
                  HttpSend ((request_interceptor (auth s) config)
                     \<lparr>retry := True, headers_Authorization := Some (bearer accessTok)\<rparr>)]
                 @ (case res of Inl e \<Rightarrow> other_errors e | Inr resp \<Rightarrow> [])\<rparr>)"
proof -
  let ?c1 = "request_interceptor (auth s) config"
  let ?c2 = "?c1\<lparr>retry := True, headers_Authorization := Some (bearer accessTok)\<rparr>"
  let ?s1 = "emit [HttpSend ?c1] (s\<lparr>world := w1\<rparr>)"
  let ?s2 = "\<lparr>auth = updateTokens accessTok None (auth s), world = w2,
              effects = effects s @ [HttpSend ?c1] @ [HttpRefresh (refreshToken (auth s)),
                             StoreUpdateTokens accessTok]\<rparr>"
  have s1: "auth ?s1 = auth s" "world ?s1 = w1" "effects ?s1 = effects s @ [HttpSend ?c1]"
    by (simp_all add: emit_def)
  have a: "api nw config s = response_rejected nw error ?c1 ?s1"
    by (rule api_rejected [OF first])
  have b: "response_rejected nw error ?c1 ?s1 = api nw ?c2 ?s2"
    using response_rejected_refresh_ok [of error ?c1 ?s1 nw accessTok w2]
      unauthorized first_time has_refresh refreshed
    by (simp add: s1 retry_request_interceptor)
  have tok: "accessToken (updateTokens accessTok None (auth s)) = Some accessTok"
    by (simp add: updateTokens_def)
  have c2: "request_interceptor (updateTokens accessTok None (auth s)) ?c2 = ?c2"
    using request_interceptor_same_token [OF tok, of "?c1\<lparr>retry := True\<rparr>"] by simp
  have c: "api nw ?c2 ?s2 = (res, \<lparr>auth = auth ?s2, world = w3,
             effects = effects ?s2 @ [HttpSend ?c2] @ (case res of Inl e \<Rightarrow> other_errors e | Inr resp \<Rightarrow> [])\<rparr>)"
  proof (cases res)
    case (Inr resp)
    with reissued have "adapter nw (world ?s2) (request_interceptor (auth ?s2) ?c2) = (Inr resp, w3)"
      by (simp add: c2)
    from api_resolved [OF this] Inr show ?thesis by (simp add: c2 emit_def)
  next
    case (Inl e)
    with reissued have "adapter nw (world ?s2) (request_interceptor (auth ?s2) ?c2) = (Inl e, w3)"
      by (simp add: c2)
    from api_rejected [OF this]
    have "api nw ?c2 ?s2 = response_rejected nw e ?c2 (emit [HttpSend ?c2] (?s2\<lparr>world := w3\<rparr>))"
      by (simp add: c2)
    also have "\<dots> = (Inl e, \<lparr>auth = auth ?s2, world = w3,
                 effects = (effects ?s2 @ [HttpSend ?c2]) @ other_errors e\<rparr>)"
      using response_rejected_passthrough [of ?c2 "emit [HttpSend ?c2] (?s2\<lparr>world := w3\<rparr>)" e nw]
      by (simp add: emit_def)
    finally show ?thesis using Inl by simp
  qed
  show ?thesis unfolding a b c by simp
qed

text \<open>
  C3. When a call is rejected with status 401, is not yet marked as a retry, and the store
  holds a refresh token, and the refresh endpoint answers with a new access token, then the
  pipeline has called the refresh endpoint once, has stored the new access token, has sent
  the original request once more, marked as a retry and carrying the new token, and returns
  the outcome of that second exchange, whatever it is.
\<close>

theorem transparent_refresh_and_retry:
  fixes nw :: "'w net"
  assumes first: "adapter nw (world s) (request_interceptor (auth s) config) = (Inl error, w1)"
    and unauthorized: "status_of error = Some 401"
    and first_time: "\<not> retry config"
    and has_refresh: "truthy_string (refreshToken (auth s))"
    and refreshed: "post_refresh nw w1 (refreshToken (auth s)) = (Inr accessTok, w2)"
    and reissued: "adapter nw w2
        ((request_interceptor (auth s) config)
           \<lparr>retry := True, headers_Authorization := Some (bearer accessTok)\<rparr>) = (res, w3)"
  shows "fst (api nw config s) = res
     \<and> accessToken (auth (snd (api nw config s))) = Some accessTok
     \<and> world (snd (api nw config s)) = w3
     \<and> effects (snd (api nw config s))
         = effects s @
           [HttpSend (request_interceptor (auth s) config),
            HttpRefresh (refreshToken (auth s)),
            StoreUpdateTokens accessTok,
            HttpSend ((request_interceptor (auth s) config)
               \<lparr>retry := True, headers_Authorization := Some (bearer accessTok)\<rparr>)]
           @ (case res of Inl e \<Rightarrow> other_errors e | Inr resp \<Rightarrow> [])"
  by (simp add: api_refresh_retry [OF assms] updateTokens_def)

theorem transparent_refresh_and_retry_witness:
  "adapter demo_backend (world demo_sys) (request_interceptor (auth demo_sys) demo_request)
     = (Inl unauthorized_error, 1)
   \<and> status_of unauthorized_error = Some 401
   \<and> \<not> retry demo_request
   \<and> truthy_string (refreshToken (auth demo_sys))
   \<and> post_refresh demo_backend 1 (refreshToken (auth demo_sys)) = (Inr ''fresh'', 2)
   \<and> adapter demo_backend 2
        ((request_interceptor (auth demo_sys) demo_request)
           \<lparr>retry := True, headers_Authorization := Some (bearer ''fresh'')\<rparr>) = (Inr ok_response, 3)
   \<and> fst (api demo_backend demo_request demo_sys) = Inr ok_response
   \<and> accessToken (auth (snd (api demo_backend demo_request demo_sys))) = Some ''fresh''
   \<and> effects (snd (api demo_backend demo_request demo_sys))
       = [HttpSend \<lparr>url = ''/products'', headers_Authorization = Some (bearer ''stale''), retry = False\<rparr>,
          HttpRefresh (Some ''refresh-1''),
          StoreUpdateTokens ''fresh'',
          HttpSend \<lparr>url = ''/products'', headers_Authorization = Some (bearer ''fresh''), retry = True\<rparr>]"
proof -
  have h1: "adapter demo_backend (world demo_sys) (request_interceptor (auth demo_sys) demo_request)
              = (Inl unauthorized_error, 1)"
    by (simp add: demo_backend_def demo_sys_def demo_request_def request_interceptor_def
          login_def bearer_def)
  have h2: "status_of unauthorized_error = Some 401"
    by (simp add: status_of_def unauthorized_error_def)
  have h3: "\<not> retry demo_request"
    by (simp add: demo_request_def)
  have h4: "truthy_string (refreshToken (auth demo_sys))"
    by (simp add: demo_sys_def login_def)
  have h5: "post_refresh demo_backend 1 (refreshToken (auth demo_sys)) = (Inr ''fresh'', 2)"
    by (simp add: demo_backend_def demo_sys_def login_def)
  have h6: "adapter demo_backend 2
        ((request_interceptor (auth demo_sys) demo_request)
           \<lparr>retry := True, headers_Authorization := Some (bearer ''fresh'')\<rparr>) = (Inr ok_response, 3)"
    by (simp add: demo_backend_def)
  have c1: "request_interceptor (auth demo_sys) demo_request
              = \<lparr>url = ''/products'', headers_Authorization = Some (bearer ''stale''), retry = False\<rparr>"
    by (simp add: demo_sys_def demo_request_def request_interceptor_def login_def)
  have e: "effects demo_sys = []" "refreshToken (auth demo_sys) = Some ''refresh-1''"
    by (simp_all add: demo_sys_def login_def)
  from transparent_refresh_and_retry [OF h1 h2 h3 h4 h5 h6] h1 h2 h3 h4 h5 h6
  show ?thesis by (simp add: c1 e)
qed

text \<open>
  C4. When the refresh call itself fails after a first 401, the call is rejected with the
  refresh error after one \<open>logout\<close>, which clears actor and both tokens and sets
  \<open>isAuthenticated\<close> to false, a redirect to \<open>/login\<close> and the toast "Session expired.
  Please login again."; the original request is not sent again.
\<close>

theorem refresh_failure_logs_out:
  fixes nw :: "'w net"
  assumes first: "adapter nw (world s) (request_interceptor (auth s) config) = (Inl error, w1)"
    and unauthorized: "status_of error = Some 401"
    and first_time: "\<not> retry config"
    and has_refresh: "truthy_string (refreshToken (auth s))"
    and refresh_failed: "post_refresh nw w1 (refreshToken (auth s)) = (Inl refreshError, w2)"
  shows "api nw config s
           = (Inl refreshError,
              \<lparr>auth = logout (auth s), world = w2,
               effects = effects s @
                 [HttpSend (request_interceptor (auth s) config),
                  HttpRefresh (refreshToken (auth s)),
                  StoreLogout,
                  LocationHref ''/login'',
                  ToastError ''Session expired. Please login again.'']\<rparr>)
     \<and> user (auth (snd (api nw config s))) = None
     \<and> accessToken (auth (snd (api nw config s))) = None
     \<and> refreshToken (auth (snd (api nw config s))) = None
     \<and> \<not> isAuthenticated (auth (snd (api nw config s)))"
proof -
  let ?c1 = "request_interceptor (auth s) config"
  let ?s1 = "emit [HttpSend ?c1] (s\<lparr>world := w1\<rparr>)"
  have s1: "auth ?s1 = auth s" "world ?s1 = w1" "effects ?s1 = effects s @ [HttpSend ?c1]"
    by (simp_all add: emit_def)
  have "api nw config s = response_rejected nw error ?c1 ?s1"
    by (rule api_rejected [OF first])
  also have "\<dots> = (Inl refreshError,
              \<lparr>auth = logout (auth s), world = w2,
               effects = effects s @
                 [HttpSend ?c1, HttpRefresh (refreshToken (auth s)), StoreLogout,
                  LocationHref ''/login'',
                  ToastError ''Session expired. Please login again.'']\<rparr>)"
    using response_rejected_refresh_failed [of error ?c1 ?s1 nw refreshError w2]
      unauthorized first_time has_refresh refresh_failed
    by (simp add: s1 retry_request_interceptor)
  finally show ?thesis by (simp add: logout_def)
qed

theorem refresh_failure_logs_out_witness:
  "adapter demo_backend (world expired_sys) (request_interceptor (auth expired_sys) demo_request)
     = (Inl unauthorized_error, 1)
   \<and> status_of unauthorized_error = Some 401
   \<and> \<not> retry demo_request
   \<and> truthy_string (refreshToken (auth expired_sys))
   \<and> post_refresh demo_backend 1 (refreshToken (auth expired_sys)) = (Inl refresh_rejected, 2)
   \<and> api demo_backend demo_request expired_sys
       = (Inl refresh_rejected,
          \<lparr>auth = initialState, world = 2,
           effects =
             [HttpSend \<lparr>url = ''/products'', headers_Authorization = Some (bearer ''stale''), retry = False\<rparr>,
              HttpRefresh (Some ''refresh-0''),
              StoreLogout,
              LocationHref ''/login'',
              ToastError ''Session expired. Please login again.'']\<rparr>)"
proof -
  have h1: "adapter demo_backend (world expired_sys) (request_interceptor (auth expired_sys) demo_request)
              = (Inl unauthorized_error, 1)"
    by (simp add: demo_backend_def expired_sys_def demo_request_def request_interceptor_def
          login_def bearer_def)
  have h2: "status_of unauthorized_error = Some 401"
    by (simp add: status_of_def unauthorized_error_def)
  have h3: "\<not> retry demo_request"
    by (simp add: demo_request_def)
  have h4: "truthy_string (refreshToken (auth expired_sys))"
    by (simp add: expired_sys_def login_def)
  have h5: "post_refresh demo_backend 1 (refreshToken (auth expired_sys)) = (Inl refresh_rejected, 2)"
    by (simp add: demo_backend_def expired_sys_def login_def)
  have c1: "request_interceptor (auth expired_sys) demo_request
              = \<lparr>url = ''/products'', headers_Authorization = Some (bearer ''stale''), retry = False\<rparr>"
    by (simp add: expired_sys_def demo_request_def request_interceptor_def login_def)
  have e: "effects expired_sys = []" "refreshToken (auth expired_sys) = Some ''refresh-0''"
    "logout (auth expired_sys) = initialState"
    by (simp_all add: expired_sys_def login_def logout_def initialState_def)
  from refresh_failure_logs_out [OF h1 h2 h3 h4 h5] h1 h2 h3 h4 h5
  show ?thesis by (simp add: c1 e)
qed

text \<open>
  C6, as amended. A 401 on a request that is already a retry, or while the store holds no
  refresh token, is passed to the caller as it is, after the toast of the general error path:
  no refresh is attempted, nothing is sent again, and the Session Store is left unchanged.
\<close>

theorem unrecoverable_unauthorized_passes_through:
  fixes nw :: "'w net"
  assumes first: "adapter nw (world s) (request_interceptor (auth s) config) = (Inl error, w1)"
    and unauthorized: "status_of error = Some 401"
    and unrecoverable: "retry config \<or> \<not> truthy_string (refreshToken (auth s))"
  shows "api nw config s
           = (Inl error,
              \<lparr>auth = auth s, world = w1,
               effects = effects s @
                 HttpSend (request_interceptor (auth s) config) # other_errors error\<rparr>)"
proof -
  let ?c1 = "request_interceptor (auth s) config"
  let ?s1 = "emit [HttpSend ?c1] (s\<lparr>world := w1\<rparr>)"
  have s1: "auth ?s1 = auth s" "world ?s1 = w1" "effects ?s1 = effects s @ [HttpSend ?c1]"
    by (simp_all add: emit_def)
  have "api nw config s = response_rejected nw error ?c1 ?s1"
    by (rule api_rejected [OF first])
  also have "\<dots> = (Inl error, \<lparr>auth = auth ?s1, world = world ?s1,
                        effects = effects ?s1 @ other_errors error\<rparr>)"
    using unrecoverable
    by (intro response_rejected_passthrough) (auto simp add: s1 retry_request_interceptor)
  finally show ?thesis by (simp add: s1)
qed

theorem unrecoverable_unauthorized_passes_through_witness:
  "adapter strict_backend (world demo_sys)
      (request_interceptor (auth demo_sys) (demo_request\<lparr>retry := True\<rparr>))
     = (Inl unauthorized_error, 1)
   \<and> status_of unauthorized_error = Some 401
   \<and> (retry (demo_request\<lparr>retry := True\<rparr>) \<or> \<not> truthy_string (refreshToken (auth demo_sys)))
   \<and> api strict_backend (demo_request\<lparr>retry := True\<rparr>) demo_sys
       = (Inl unauthorized_error,
          \<lparr>auth = login staff_D1 ''stale'' ''refresh-1'' initialState, world = 1,
           effects =
             [HttpSend \<lparr>url = ''/products'', headers_Authorization = Some (bearer ''stale''), retry = True\<rparr>,
              ToastError ''Token expired'']\<rparr>)"
proof -
  have h1: "adapter strict_backend (world demo_sys)
      (request_interceptor (auth demo_sys) (demo_request\<lparr>retry := True\<rparr>))
     = (Inl unauthorized_error, 1)"
    by (simp add: strict_backend_def demo_backend_def demo_sys_def)
  have h2: "status_of unauthorized_error = Some 401"
    by (simp add: status_of_def unauthorized_error_def)
  have h3: "retry (demo_request\<lparr>retry := True\<rparr>) \<or> \<not> truthy_string (refreshToken (auth demo_sys))"
    by simp
  have c1: "request_interceptor (login staff_D1 ''stale'' ''refresh-1'' initialState)
                (demo_request\<lparr>retry := True\<rparr>)
              = \<lparr>url = ''/products'', headers_Authorization = Some (bearer ''stale''), retry = True\<rparr>"
    by (simp add: demo_request_def request_interceptor_def login_def)
  have e: "effects demo_sys = []" "auth demo_sys = login staff_D1 ''stale'' ''refresh-1'' initialState"
    "other_errors unauthorized_error = [ToastError ''Token expired'']"
    by (simp_all add: demo_sys_def other_errors_def data_error_of_def unauthorized_error_def
          silentErrors_def)
  from unrecoverable_unauthorized_passes_through [OF h1 h2 h3] h1 h2 h3
  show ?thesis by (simp add: c1 e)
qed

text \<open>
  Such a 401 does not log out. Against a backend that rejects the refreshed token as well,
  the retry is rejected and the session stays authenticated, with the new access token;
  likewise for a session without refresh token.
\<close>

theorem unrecoverable_unauthorized_counterexample:
  "fst (api strict_backend demo_request demo_sys) = Inl unauthorized_error
   \<and> status_of unauthorized_error = Some 401
   \<and> effects (snd (api strict_backend demo_request demo_sys))
       = [HttpSend \<lparr>url = ''/products'', headers_Authorization = Some (bearer ''stale''), retry = False\<rparr>,
          HttpRefresh (Some ''refresh-1''),
          StoreUpdateTokens ''fresh'',
          HttpSend \<lparr>url = ''/products'', headers_Authorization = Some (bearer ''fresh''), retry = True\<rparr>,
          ToastError ''Token expired'']
   \<and> isAuthenticated (auth (snd (api strict_backend demo_request demo_sys)))
   \<and> user (auth (snd (api strict_backend demo_request demo_sys))) = Some staff_D1
   \<and> accessToken (auth (snd (api strict_backend demo_request demo_sys))) = Some ''fresh''
   \<and> refreshToken (auth (snd (api strict_backend demo_request demo_sys))) = Some ''refresh-1''
   \<and> refreshToken (auth norefresh_sys) = None
   \<and> fst (api strict_backend demo_request norefresh_sys) = Inl unauthorized_error
   \<and> isAuthenticated (auth (snd (api strict_backend demo_request norefresh_sys)))
   \<and> auth (snd (api strict_backend demo_request norefresh_sys)) = auth norefresh_sys"
  by (simp add: api.simps response_rejected.simps Let_def emit_def strict_backend_def
        demo_backend_def demo_request_def demo_sys_def norefresh_sys_def request_interceptor_def
        login_def updateTokens_def initialState_def status_of_def unauthorized_error_def
        other_errors_def data_error_of_def silentErrors_def)

text \<open>
  C10. \<open>updateTokens\<close> with the refresh token omitted or empty changes the access token
  only: actor, refresh token and \<open>isAuthenticated\<close> stay as they are. So after a successful
  transparent refresh, where the pipeline calls it with the new access token alone, the store
  still holds the refresh token it held before.
\<close>

theorem access_only_update_keeps_refresh_token:
  fixes nw :: "'w net"
  assumes falsy: "\<not> truthy_string rt"
    and first: "adapter nw (world s) (request_interceptor (auth s) config) = (Inl error, w1)"
    and unauthorized: "status_of error = Some 401"
    and first_time: "\<not> retry config"
    and has_refresh: "truthy_string (refreshToken (auth s))"
    and refreshed: "post_refresh nw w1 (refreshToken (auth s)) = (Inr accessTok, w2)"
    and reissued: "adapter nw w2
        ((request_interceptor (auth s) config)
           \<lparr>retry := True, headers_Authorization := Some (bearer accessTok)\<rparr>) = (res, w3)"
  shows "updateTokens at rt st = st\<lparr>accessToken := Some at\<rparr>
     \<and> user (updateTokens at rt st) = user st
     \<and> refreshToken (updateTokens at rt st) = refreshToken st
     \<and> isAuthenticated (updateTokens at rt st) = isAuthenticated st
     \<and> auth (snd (api nw config s)) = (auth s)\<lparr>accessToken := Some accessTok\<rparr>
     \<and> refreshToken (auth (snd (api nw config s))) = refreshToken (auth s)"
  using falsy
  by (simp add: api_refresh_retry [OF first unauthorized first_time has_refresh refreshed reissued]
        updateTokens_def)

theorem access_only_update_keeps_refresh_token_witness:
  "\<not> truthy_string (Some [])
   \<and> adapter demo_backend (world demo_sys) (request_interceptor (auth demo_sys) demo_request)
       = (Inl unauthorized_error, 1)
   \<and> status_of unauthorized_error = Some 401
   \<and> \<not> retry demo_request
   \<and> truthy_string (refreshToken (auth demo_sys))
   \<and> post_refresh demo_backend 1 (refreshToken (auth demo_sys)) = (Inr ''fresh'', 2)
   \<and> adapter demo_backend 2
        ((request_interceptor (auth demo_sys) demo_request)
           \<lparr>retry := True, headers_Authorization := Some (bearer ''fresh'')\<rparr>) = (Inr ok_response, 3)
   \<and> updateTokens ''fresh'' (Some []) (auth demo_sys)
       = \<lparr>user = Some staff_D1, accessToken = Some ''fresh'', refreshToken = Some ''refresh-1'',
          isAuthenticated = True, isLoading = False\<rparr>
   \<and> refreshToken (auth (snd (api demo_backend demo_request demo_sys))) = Some ''refresh-1''"
proof -
  have h0: "\<not> truthy_string (Some [])"
    by simp
  have h1: "adapter demo_backend (world demo_sys) (request_interceptor (auth demo_sys) demo_request)
              = (Inl unauthorized_error, 1)"
    by (simp add: demo_backend_def demo_sys_def demo_request_def request_interceptor_def
          login_def bearer_def)
  have h2: "status_of unauthorized_error = Some 401"
    by (simp add: status_of_def unauthorized_error_def)
  have h3: "\<not> retry demo_request"
    by (simp add: demo_request_def)
  have h4: "truthy_string (refreshToken (auth demo_sys))"
    by (simp add: demo_sys_def login_def)
  have h5: "post_refresh demo_backend 1 (refreshToken (auth demo_sys)) = (Inr ''fresh'', 2)"
    by (simp add: demo_backend_def demo_sys_def login_def)
  have h6: "adapter demo_backend 2
        ((request_interceptor (auth demo_sys) demo_request)
           \<lparr>retry := True, headers_Authorization := Some (bearer ''fresh'')\<rparr>) = (Inr ok_response, 3)"
    by (simp add: demo_backend_def)
  have e: "auth demo_sys
             = \<lparr>user = Some staff_D1, accessToken = Some ''stale'', refreshToken = Some ''refresh-1'',
                isAuthenticated = True, isLoading = False\<rparr>"
    by (simp add: demo_sys_def login_def initialState_def)
  from access_only_update_keeps_refresh_token
         [OF h0 h1 h2 h3 h4 h5 h6, of "''fresh''" "auth demo_sys"] h0 h1 h2 h3 h4 h5 h6
  show ?thesis by (simp add: e)
qed

end
